theory Spec2Isabelle
  imports Main "HOL-Library.Char_ord" "HOL-Library.List_Lexorder"
begin

section \<open>leekspin.torversions: version numbers and their ordering\<close>

text \<open>
  The module is Python 2 code (it calls \<open>xrange\<close> and the builtin \<open>cmp\<close>), so the
  embedding follows Python 2: the class decorator \<open>comparable\<close> returns the class
  unchanged there and the interpreter derives the six relational operators from
  \<open>__cmp__\<close> with the very mapping that \<open>comparable\<close> spells out for Python 3.
  The file applies \<open>comparable\<close> on line 52, before the line that defines it; the
  embedding takes every definition of the module as in scope.
  Each definition below embeds the body of one function of the module, statement by
  statement; an exception is the \<open>Inl\<close> of a sum, an attribute that was never assigned
  is \<open>None\<close> in the instance record and reading it raises \<open>AttributeError\<close>.
\<close>

subsection \<open>Values, exceptions, instances\<close>

text \<open>
  The values an attribute of a \<open>Version\<close> can hold: Python's \<open>None\<close>, a string, and
  the object \<open>_inf\<close>. Line 69 rebinds the class name \<open>_inf\<close> to its one instance, so
  there is one such object and \<open>other is _inf\<close> is equality with it.
\<close>

datatype pyval = PyNone | PyStr string | PyInf

text \<open>
  \<open>IncomparableVersions\<close> is raised with the message \<open>"%r != %r" % (self.package,
  other.package)\<close>; the model keeps the two labels the message is made of.
\<close>

datatype error =
    NameError string
  | AttributeError string
  | IndexError
  | IncomparableVersions pyval pyval

record Version =
  major :: "pyval option"
  minor :: "pyval option"
  micro :: "pyval option"
  prerelease :: "pyval option"
  package :: "pyval option"

datatype pyobj = VersionObj Version | ValObj pyval

datatype cmp_result = NotImplemented | CmpInt int

datatype rel_result = RNotImplemented | RBool bool

definition andThen :: "error + 'a \<Rightarrow> ('a \<Rightarrow> error + 'b) \<Rightarrow> error + 'b" where
  "andThen r f = (case r of Inl e \<Rightarrow> Inl e | Inr x \<Rightarrow> f x)"

definition new_instance :: Version where
  "new_instance = \<lparr>major = None, minor = None, micro = None, prerelease = None, package = None\<rparr>"

definition getattr :: "(Version \<Rightarrow> pyval option) \<Rightarrow> string \<Rightarrow> Version \<Rightarrow> error + pyval" where
  "getattr field name self =
     (case field self of None \<Rightarrow> Inl (AttributeError name) | Some v \<Rightarrow> Inr v)"

subsection \<open>The string and list builtins the module calls\<close>

text \<open>\<open>s.find(c)\<close>: the lowest index of \<open>c\<close> in \<open>s\<close>, or \<open>-1\<close>.\<close>

fun find_from :: "char \<Rightarrow> string \<Rightarrow> int \<Rightarrow> int" where
  "find_from c [] i = - 1"
| "find_from c (x # xs) i = (if x = c then i else find_from c xs (i + 1))"

definition str_find :: "string \<Rightarrow> char \<Rightarrow> int" where
  "str_find s c = find_from c s 0"

text \<open>
  \<open>s.split(sep)\<close> for a one-character separator: every occurrence of the separator
  ends a token, so a string with \<open>n\<close> separators gives \<open>n + 1\<close> tokens (some may be
  empty) and the result is never the empty list.
\<close>

fun split_from :: "char \<Rightarrow> string \<Rightarrow> string \<Rightarrow> string list" where
  "split_from sep cur [] = [cur]"
| "split_from sep cur (c # cs) =
     (if c = sep then cur # split_from sep [] cs else split_from sep (cur @ [c]) cs)"

definition str_split :: "char \<Rightarrow> string \<Rightarrow> string list" where
  "str_split sep s = split_from sep [] s"

text \<open>\<open>xs.pop()\<close>: removes and returns the last element; \<open>IndexError\<close> on an empty list.\<close>

definition list_pop :: "'a list \<Rightarrow> error + ('a \<times> 'a list)" where
  "list_pop xs = (if xs = [] then Inl IndexError else Inr (last xs, butlast xs))"

text \<open>Truth value of the \<open>package\<close> argument: \<open>None\<close> and the empty string are false.\<close>

definition truthy :: "string option \<Rightarrow> bool" where
  "truthy p = (case p of None \<Rightarrow> False | Some s \<Rightarrow> s \<noteq> [])"

subsection \<open>\<open>Version.__init__\<close> (lines 141 to 168)\<close>

text \<open>
  Line 151: the constructor prints a notice when the string has no dot; the notice goes
  to standard output and changes nothing else.
\<close>

definition Version_init_prints :: "string \<Rightarrow> bool" where
  "Version_init_prints version = (str_find version CHR ''.'' = - 1)"

text \<open>
  Lines 160 to 163, the body of the \<open>try\<close>: four pops, each stored in an attribute of
  \<open>self\<close>. The result is the exception that interrupted the body, if any, and \<open>self\<close>
  as it was at that moment: the attributes assigned before the exception stay assigned.
  Line 155 assigns four local variables that are never read; no attribute is set there.
\<close>

definition init_try :: "Version \<Rightarrow> string list \<Rightarrow> error option \<times> Version" where
  "init_try self c0 =
     (case list_pop c0 of Inl e \<Rightarrow> (Some e, self) | Inr (x1, c1) \<Rightarrow>
      (let self1 = self\<lparr>prerelease := Some (PyStr x1)\<rparr> in
       case list_pop c1 of Inl e \<Rightarrow> (Some e, self1) | Inr (x2, c2) \<Rightarrow>
       (let self2 = self1\<lparr>micro := Some (PyStr x2)\<rparr> in
        case list_pop c2 of Inl e \<Rightarrow> (Some e, self2) | Inr (x3, c3) \<Rightarrow>
        (let self3 = self2\<lparr>minor := Some (PyStr x3)\<rparr> in
         case list_pop c3 of Inl e \<Rightarrow> (Some e, self3) | Inr (x4, c4) \<Rightarrow>
         (None, self3\<lparr>major := Some (PyStr x4)\<rparr>)))))"

text \<open>Lines 167 and 168: the attribute \<open>package\<close> is assigned only for a true argument.\<close>

definition init_package :: "Version \<Rightarrow> string option \<Rightarrow> Version" where
  "init_package self pkg =
     (if truthy pkg then self\<lparr>package := Some (PyStr (the pkg))\<rparr> else self)"

text \<open>
  The constructor: \<open>except IndexError: pass\<close> swallows an \<open>IndexError\<close> of the
  \<open>try\<close> body and lets any other exception through.
\<close>

definition Version_init :: "string \<Rightarrow> string option \<Rightarrow> error + Version" where
  "Version_init version pkg =
     (let components = str_split CHR ''.'' version;
          r = (if length components > 0 then init_try new_instance components
               else (None, new_instance))
      in case fst r of
           None \<Rightarrow> Inr (init_package (snd r) pkg)
         | Some IndexError \<Rightarrow> Inr (init_package (snd r) pkg)
         | Some e \<Rightarrow> Inl e)"

subsection \<open>\<open>_inf.__cmp__\<close> (lines 55 to 67) and the builtin \<open>cmp\<close>\<close>

definition inf_cmp :: "pyobj \<Rightarrow> int" where
  "inf_cmp other = (if other = ValObj PyInf then 0 else 1)"

text \<open>
  Python 2 compares two strings by the codes of their characters, left to right; a
  proper prefix is below the longer string.
\<close>

fun str_cmp :: "string \<Rightarrow> string \<Rightarrow> int" where
  "str_cmp [] [] = 0"
| "str_cmp [] (y # ys) = - 1"
| "str_cmp (x # xs) [] = 1"
| "str_cmp (x # xs) (y # ys) =
     (if (of_char x :: nat) < of_char y then - 1
      else if (of_char y :: nat) < of_char x then 1
      else str_cmp xs ys)"

text \<open>
  The builtin \<open>cmp\<close> of Python 2 on the values above: an operand that is \<open>_inf\<close>
  decides through \<open>_inf.__cmp__\<close> (negated when \<open>_inf\<close> is the right operand),
  \<open>None\<close> is below every other value, two strings compare as strings.
\<close>

fun py_cmp :: "pyval \<Rightarrow> pyval \<Rightarrow> int" where
  "py_cmp PyInf w = inf_cmp (ValObj w)"
| "py_cmp v PyInf = - inf_cmp (ValObj v)"
| "py_cmp PyNone PyNone = 0"
| "py_cmp PyNone (PyStr b) = - 1"
| "py_cmp (PyStr a) PyNone = 1"
| "py_cmp (PyStr a) (PyStr b) = str_cmp a b"

text \<open>\<open>cmp\<close> of two 4-tuples: the first pair of unequal elements decides.\<close>

fun cmp4 :: "pyval \<times> pyval \<times> pyval \<times> pyval \<Rightarrow> pyval \<times> pyval \<times> pyval \<times> pyval \<Rightarrow> int" where
  "cmp4 (a1, a2, a3, a4) (b1, b2, b3, b4) =
     (if py_cmp a1 b1 \<noteq> 0 then py_cmp a1 b1
      else if py_cmp a2 b2 \<noteq> 0 then py_cmp a2 b2
      else if py_cmp a3 b3 \<noteq> 0 then py_cmp a3 b3
      else py_cmp a4 b4)"

subsection \<open>\<open>Version.__cmp__\<close> (lines 207 to 246)\<close>

text \<open>Lines 228 to 231 (and 233 to 236 for \<open>other\<close>): \<open>_inf\<close> stands in for \<open>None\<close>.\<close>

definition effective_prerelease :: "Version \<Rightarrow> error + pyval" where
  "effective_prerelease v =
     andThen (getattr prerelease ''prerelease'' v) (\<lambda>p.
       if p = PyNone then Inr PyInf else Inr p)"

fun Version_cmp :: "Version \<Rightarrow> pyobj \<Rightarrow> error + cmp_result" where
  "Version_cmp self (ValObj x) = Inr NotImplemented"
| "Version_cmp self (VersionObj other) =
     andThen (getattr package ''package'' self) (\<lambda>sp.
     andThen (getattr package ''package'' other) (\<lambda>op.
     if sp \<noteq> op then Inl (IncomparableVersions sp op) else
     andThen (effective_prerelease self) (\<lambda>pre.
     andThen (effective_prerelease other) (\<lambda>otherpre.
     andThen (getattr major ''major'' self) (\<lambda>a1.
     andThen (getattr minor ''minor'' self) (\<lambda>a2.
     andThen (getattr micro ''micro'' self) (\<lambda>a3.
     andThen (getattr major ''major'' other) (\<lambda>b1.
     andThen (getattr minor ''minor'' other) (\<lambda>b2.
     andThen (getattr micro ''micro'' other) (\<lambda>b3.
     Inr (CmpInt (cmp4 (a1, a2, a3, pre) (b1, b2, b3, otherpre)))))))))))))"

subsection \<open>The six relational operators (\<open>comparable\<close>, lines 85 to 119)\<close>

definition Version_eq :: "Version \<Rightarrow> pyobj \<Rightarrow> error + rel_result" where
  "Version_eq self other =
     andThen (Version_cmp self other) (\<lambda>c.
       case c of NotImplemented \<Rightarrow> Inr RNotImplemented | CmpInt n \<Rightarrow> Inr (RBool (n = 0)))"

definition Version_ne :: "Version \<Rightarrow> pyobj \<Rightarrow> error + rel_result" where
  "Version_ne self other =
     andThen (Version_cmp self other) (\<lambda>c.
       case c of NotImplemented \<Rightarrow> Inr RNotImplemented | CmpInt n \<Rightarrow> Inr (RBool (n \<noteq> 0)))"

definition Version_lt :: "Version \<Rightarrow> pyobj \<Rightarrow> error + rel_result" where
  "Version_lt self other =
     andThen (Version_cmp self other) (\<lambda>c.
       case c of NotImplemented \<Rightarrow> Inr RNotImplemented | CmpInt n \<Rightarrow> Inr (RBool (n < 0)))"

definition Version_le :: "Version \<Rightarrow> pyobj \<Rightarrow> error + rel_result" where
  "Version_le self other =
     andThen (Version_cmp self other) (\<lambda>c.
       case c of NotImplemented \<Rightarrow> Inr RNotImplemented | CmpInt n \<Rightarrow> Inr (RBool (n \<le> 0)))"

definition Version_gt :: "Version \<Rightarrow> pyobj \<Rightarrow> error + rel_result" where
  "Version_gt self other =
     andThen (Version_cmp self other) (\<lambda>c.
       case c of NotImplemented \<Rightarrow> Inr RNotImplemented | CmpInt n \<Rightarrow> Inr (RBool (n > 0)))"

definition Version_ge :: "Version \<Rightarrow> pyobj \<Rightarrow> error + rel_result" where
  "Version_ge self other =
     andThen (Version_cmp self other) (\<lambda>c.
       case c of NotImplemented \<Rightarrow> Inr RNotImplemented | CmpInt n \<Rightarrow> Inr (RBool (n \<ge> 0)))"

subsection \<open>\<open>Version.getPrefixedPrerelease\<close> and \<open>Version.base\<close> (lines 170 to 191)\<close>

text \<open>
  Line 189 reads \<open>self.prerelease\<close>; line 190 then evaluates \<open>prefix + self.prerelease\<close>,
  whose left operand \<open>prefix\<close> is no parameter (that one is called \<open>separator\<close>), no local
  and no global of the module: the lookup raises \<open>NameError\<close>.
\<close>

definition getPrefixedPrerelease :: "Version \<Rightarrow> string \<Rightarrow> error + string" where
  "getPrefixedPrerelease self separator =
     andThen (getattr prerelease ''prerelease'' self) (\<lambda>p.
       if p \<noteq> PyNone then Inl (NameError ''prefix'') else Inr [])"

text \<open>
  Line 177 calls the bare name \<open>getPrefixedPrerelease\<close>, not the method of \<open>self\<close>; the
  module has no global of that name, so the lookup raises \<open>NameError\<close> before any
  attribute is read and line 178 is never reached.
\<close>

definition base :: "Version \<Rightarrow> error + string" where
  "base self = Inl (NameError ''getPrefixedPrerelease'')"

subsection \<open>Expressions over freshly constructed versions\<close>

text \<open>
  \<open>Version(s, p).__cmp__(Version(t, q))\<close> and the relations \<open>==\<close>, \<open><\<close>, \<open>>\<close> on two
  freshly constructed versions, evaluated left to right.
\<close>

definition on_parsed ::
  "(Version \<Rightarrow> pyobj \<Rightarrow> error + 'a) \<Rightarrow> string \<Rightarrow> string option \<Rightarrow> string \<Rightarrow> string option \<Rightarrow> error + 'a" where
  "on_parsed f s p t q =
     andThen (Version_init s p) (\<lambda>a.
     andThen (Version_init t q) (\<lambda>b. f a (VersionObj b)))"

text \<open>\<open>Version(s, p).base()\<close>.\<close>

definition base_parsed :: "string \<Rightarrow> string option \<Rightarrow> error + string" where
  "base_parsed s p = andThen (Version_init s p) base"

subsection \<open>The comparison the specification describes\<close>

text \<open>
  The specification's words for the result of the three-way comparison, and its rule
  for one field: numeric when both sides parse as integers, lexical otherwise.
\<close>

datatype ordering = LESS | EQUAL | GREATER

definition three_way :: "int \<Rightarrow> ordering" where
  "three_way c = (if c < 0 then LESS else if c = 0 then EQUAL else GREATER)"

definition is_digit :: "char \<Rightarrow> bool" where
  "is_digit c = (48 \<le> (of_char c :: nat) \<and> (of_char c :: nat) \<le> 57)"

definition parses_as_int :: "string \<Rightarrow> bool" where
  "parses_as_int s = (s \<noteq> [] \<and> list_all is_digit s)"

definition int_of_digits :: "string \<Rightarrow> int" where
  "int_of_digits s = foldl (\<lambda>n c. 10 * n + (int (of_char c) - 48)) 0 s"

definition spec_field_cmp :: "string \<Rightarrow> string \<Rightarrow> int" where
  "spec_field_cmp x y =
     (if parses_as_int x \<and> parses_as_int y
      then (if int_of_digits x < int_of_digits y then - 1
            else if int_of_digits x = int_of_digits y then 0 else 1)
      else str_cmp x y)"

text \<open>The index of the first position at which two lists differ.\<close>

definition first_diff :: "'a list \<Rightarrow> 'a list \<Rightarrow> nat" where
  "first_diff xs ys = length (takeWhile (\<lambda>(x, y). x = y) (zip xs ys))"

section \<open>Supporting lemmas\<close>

subsection \<open>Splitting and searching\<close>

lemma split_from_not_Nil: "split_from sep cur s \<noteq> []"
  by (induction s arbitrary: cur) auto

lemma str_split_not_Nil: "str_split sep s \<noteq> []"
  by (simp add: str_split_def split_from_not_Nil)

lemma split_from_no_sep: "sep \<notin> set s \<Longrightarrow> split_from sep cur s = [cur @ s]"
  by (induction s arbitrary: cur) auto

lemma str_split_no_sep: "sep \<notin> set s \<Longrightarrow> str_split sep s = [s]"
  by (simp add: str_split_def split_from_no_sep)

lemma split_from_length:
  "length (split_from sep cur s) = Suc (length (filter (\<lambda>c. c = sep) s))"
  by (induction s arbitrary: cur) auto

lemma str_split_length:
  "length (str_split sep s) = Suc (length (filter (\<lambda>c. c = sep) s))"
  by (simp add: str_split_def split_from_length)

lemma str_split_two: "sep \<in> set s \<Longrightarrow> butlast (str_split sep s) \<noteq> []"
proof -
  assume "sep \<in> set s"
  then have "filter (\<lambda>c. c = sep) s \<noteq> []"
    by (simp add: filter_empty_conv)
  then have "2 \<le> length (str_split sep s)"
    by (cases "filter (\<lambda>c. c = sep) s") (simp_all add: str_split_length)
  then show ?thesis
    by (cases "str_split sep s" rule: rev_cases) auto
qed

lemma split_from_append_no_sep:
  "sep \<notin> set t \<Longrightarrow>
     split_from sep cur (s @ t) =
       butlast (split_from sep cur s) @ [last (split_from sep cur s) @ t]"
  by (induction s arbitrary: cur) (simp_all add: split_from_no_sep split_from_not_Nil)

lemma find_from_absent: "0 \<le> i \<Longrightarrow> (find_from c s i = - 1) = (c \<notin> set s)"
  by (induction s arbitrary: i) auto

lemma str_find_absent: "(str_find s c = - 1) = (c \<notin> set s)"
  by (simp add: str_find_def find_from_absent)

lemma Version_init_prints_iff: "Version_init_prints s = (CHR ''.'' \<notin> set s)"
  by (simp add: Version_init_prints_def str_find_absent)

lemma four_tokens:
  assumes "4 \<le> length cs"
  shows "\<exists>ys x4 x3 x2 x1. cs = ys @ [x4, x3, x2, x1]"
proof -
  define zs where "zs = drop (length cs - 4) cs"
  have "length zs = Suc (Suc (Suc (Suc 0)))"
    using assms by (simp add: zs_def)
  then obtain x4 x3 x2 x1 where "zs = [x4, x3, x2, x1]"
    by (auto simp: length_Suc_conv)
  moreover have "cs = take (length cs - 4) cs @ zs"
    by (simp add: zs_def)
  ultimately show ?thesis by metis
qed

subsection \<open>The constructor\<close>

lemma init_try_exc:
  "fst (init_try self cs) = None \<or> fst (init_try self cs) = Some IndexError"
  by (simp add: init_try_def list_pop_def Let_def)

text \<open>The only exception of the \<open>try\<close> body is the one the handler swallows.\<close>

lemma Version_init_eq:
  "Version_init s p =
     Inr (init_package (snd (init_try new_instance (str_split CHR ''.'' s))) p)"
  using init_try_exc [of new_instance "str_split CHR ''.'' s"]
  by (auto simp: Version_init_def Let_def str_split_not_Nil)

lemma init_package_fields [simp]:
  "prerelease (init_package v p) = prerelease v"
  "major (init_package v p) = major v"
  "minor (init_package v p) = minor v"
  "micro (init_package v p) = micro v"
  "package (init_package v p) = (if truthy p then Some (PyStr (the p)) else package v)"
  by (simp_all add: init_package_def)

lemma init_try_package: "package (snd (init_try self cs)) = package self"
  by (simp add: init_try_def list_pop_def Let_def)

lemma init_try_prerelease:
  "cs \<noteq> [] \<Longrightarrow> prerelease (snd (init_try self cs)) = Some (PyStr (last cs))"
  by (simp add: init_try_def list_pop_def Let_def)

lemma init_try_micro:
  "butlast cs \<noteq> [] \<Longrightarrow> micro (snd (init_try self cs)) = Some (PyStr (last (butlast cs)))"
  by (auto simp: init_try_def list_pop_def Let_def)

lemma init_try_single:
  "init_try self [x] = (Some IndexError, self\<lparr>prerelease := Some (PyStr x)\<rparr>)"
  by (simp add: init_try_def list_pop_def Let_def)

lemma init_try_four:
  "init_try self (ys @ [x4, x3, x2, x1]) =
     (None, self\<lparr>prerelease := Some (PyStr x1), micro := Some (PyStr x2),
                 minor := Some (PyStr x3), major := Some (PyStr x4)\<rparr>)"
  by (simp add: init_try_def list_pop_def Let_def butlast_append)

lemma init_try_snoc:
  "snd (init_try self (ys @ [y])) =
     (snd (init_try self (ys @ [y0])))\<lparr>prerelease := Some (PyStr y)\<rparr>"
  by (simp add: init_try_def list_pop_def Let_def)

lemma on_parsed_eq:
  "on_parsed f s p t q =
     f (init_package (snd (init_try new_instance (str_split CHR ''.'' s))) p)
       (VersionObj (init_package (snd (init_try new_instance (str_split CHR ''.'' t))) q))"
  by (simp add: on_parsed_def Version_init_eq andThen_def)

text \<open>
  A suffix without a dot, appended to the version string, only lengthens the last
  token, that is the \<open>prerelease\<close> attribute.
\<close>

lemma parsed_suffix:
  assumes "CHR ''.'' \<notin> set t"
  shows "init_package (snd (init_try new_instance (str_split CHR ''.'' (s @ t)))) p
       = (init_package (snd (init_try new_instance (str_split CHR ''.'' s))) p)
           \<lparr>prerelease := Some (PyStr (last (str_split CHR ''.'' s) @ t))\<rparr>"
proof -
  let ?cs = "str_split CHR ''.'' s"
  have "str_split CHR ''.'' (s @ t) = butlast ?cs @ [last ?cs @ t]"
    using assms by (simp add: str_split_def split_from_append_no_sep)
  moreover have "?cs = butlast ?cs @ [last ?cs]"
    by (simp add: str_split_not_Nil)
  ultimately have "snd (init_try new_instance (str_split CHR ''.'' (s @ t)))
      = (snd (init_try new_instance ?cs))\<lparr>prerelease := Some (PyStr (last ?cs @ t))\<rparr>"
    using init_try_snoc [of new_instance "butlast ?cs" "last ?cs @ t" "last ?cs"] by simp
  then show ?thesis
    by (simp add: init_package_def)
qed

subsection \<open>The builtin comparison\<close>

text \<open>
  \<open>str_cmp\<close> is the lexicographic order of the library on lists of characters
  (characters ordered by their codes), as a three-way result.
\<close>

lemma str_cmp_lexical: "str_cmp x y = (if x < y then - 1 else if x = y then 0 else 1)"
  by (induction x y rule: str_cmp.induct) (auto simp: less_char_def)

lemma str_cmp_eq_0: "(str_cmp x y = 0) = (x = y)"
  by (simp add: str_cmp_lexical)

lemma str_cmp_prefix: "t \<noteq> [] \<Longrightarrow> str_cmp x (x @ t) = - 1"
  by (induction x) (cases t; simp)+

lemma py_cmp_eq_0: "(py_cmp v w = 0) = (v = w)"
  by (cases v; cases w) (simp_all add: inf_cmp_def str_cmp_eq_0)

lemma py_cmp_str:
  "py_cmp (PyStr x) (PyStr y) = (if x < y then - 1 else if x = y then 0 else 1)"
  by (simp add: str_cmp_lexical)

lemma first_diff4:
  "first_diff [a1, a2, a3, a4] [b1, b2, b3, b4] =
     (if a1 \<noteq> b1 then 0 else if a2 \<noteq> b2 then 1 else if a3 \<noteq> b3 then 2
      else if a4 \<noteq> b4 then 3 else 4)"
  by (simp add: first_diff_def)

lemma cmp4_first_diff:
  "cmp4 (a1, a2, a3, a4) (b1, b2, b3, b4) =
     (if [a1, a2, a3, a4] = [b1, b2, b3, b4] then 0
      else py_cmp ([a1, a2, a3, a4] ! first_diff [a1, a2, a3, a4] [b1, b2, b3, b4])
                  ([b1, b2, b3, b4] ! first_diff [a1, a2, a3, a4] [b1, b2, b3, b4]))"
  by (simp add: first_diff4 py_cmp_eq_0)

subsection \<open>\<open>Version.__cmp__\<close>\<close>

lemma Version_cmp_returns:
  assumes "package a = Some l" and "package b = Some l"
    and "major a = Some a1" and "minor a = Some a2" and "micro a = Some a3"
    and "effective_prerelease a = Inr a4"
    and "major b = Some b1" and "minor b = Some b2" and "micro b = Some b3"
    and "effective_prerelease b = Inr b4"
  shows "Version_cmp a (VersionObj b) = Inr (CmpInt (cmp4 (a1, a2, a3, a4) (b1, b2, b3, b4)))"
  using assms by (simp add: getattr_def andThen_def)

text \<open>
  \<open>IncomparableVersions\<close> is raised exactly when both instances have the attribute
  \<open>package\<close> and the two labels differ, and it carries the two labels.
\<close>

lemma Version_cmp_incomparable_iff:
  "(Version_cmp a (VersionObj b) = Inl (IncomparableVersions x y))
     = (package a = Some x \<and> package b = Some y \<and> x \<noteq> y)"
  by (auto simp: andThen_def getattr_def effective_prerelease_def split: option.splits)

text \<open>
  For two freshly constructed versions: exactly when both package arguments are
  non-empty strings and differ.
\<close>

lemma on_parsed_incomparable_iff:
  "(\<exists>x y. on_parsed Version_cmp s p t q = Inl (IncomparableVersions x y))
     = (truthy p \<and> truthy q \<and> p \<noteq> q)"
  by (auto simp: on_parsed_eq Version_cmp_incomparable_iff init_try_package new_instance_def
      truthy_def simp del: Version_cmp.simps split: option.splits)

lemma on_parsed_incomparable_labels:
  "on_parsed Version_cmp s p t q = Inl (IncomparableVersions x y) \<Longrightarrow>
     p = Some l \<Longrightarrow> q = Some m \<Longrightarrow> x = PyStr l \<and> y = PyStr m"
  by (auto simp: on_parsed_eq Version_cmp_incomparable_iff init_try_package new_instance_def
      truthy_def simp del: Version_cmp.simps split: if_splits)

lemma Version_cmp_self:
  "Version_cmp a (VersionObj a) = Inr r \<Longrightarrow> r = CmpInt 0"
  by (auto simp: andThen_def getattr_def effective_prerelease_def py_cmp_eq_0 inf_cmp_def
      split: option.splits if_splits)

lemma Version_cmp_longer_prerelease:
  assumes "prerelease a = Some (PyStr x)" and "t \<noteq> []"
    and "Version_cmp a (VersionObj (a\<lparr>prerelease := Some (PyStr (x @ t))\<rparr>)) = Inr r"
  shows "r = CmpInt (- 1)"
  using assms
  by (auto simp: andThen_def getattr_def effective_prerelease_def py_cmp_eq_0 str_cmp_prefix
      split: option.splits if_splits)

text \<open>
  Whatever the version string and the suffix: when the comparison of a version with
  its suffixed variant returns, the unsuffixed version is the smaller one.
\<close>

lemma suffixed_version_compares_greater:
  assumes "t \<noteq> []" and "CHR ''.'' \<notin> set t"
  shows "on_parsed Version_cmp s p (s @ t) p = Inr (CmpInt (- 1))
         \<or> (\<exists>e. on_parsed Version_cmp s p (s @ t) p = Inl e)"
proof (cases "on_parsed Version_cmp s p (s @ t) p")
  case (Inl e)
  then show ?thesis by simp
next
  case (Inr r)
  let ?a = "init_package (snd (init_try new_instance (str_split CHR ''.'' s))) p"
  have pre: "prerelease ?a = Some (PyStr (last (str_split CHR ''.'' s)))"
    by (simp add: init_try_prerelease str_split_not_Nil)
  have "Version_cmp ?a
          (VersionObj (?a\<lparr>prerelease := Some (PyStr (last (str_split CHR ''.'' s) @ t))\<rparr>))
        = Inr r"
    using Inr assms(2) by (simp add: on_parsed_eq parsed_suffix)
  then have "r = CmpInt (- 1)"
    using pre assms(1) by (rule Version_cmp_longer_prerelease [rotated 2])
  with Inr show ?thesis by simp
qed

text \<open>
  With a non-empty package label and at least three dots in the string, two versions
  constructed from the same string compare equal.
\<close>

lemma same_string_compares_equal:
  assumes "truthy p" and "3 \<le> length (filter (\<lambda>c. c = CHR ''.'') s)"
  shows "on_parsed Version_cmp s p s p = Inr (CmpInt 0)"
proof -
  have "4 \<le> length (str_split CHR ''.'' s)"
    using assms(2) by (simp add: str_split_length)
  then obtain ys x4 x3 x2 x1 where cs: "str_split CHR ''.'' s = ys @ [x4, x3, x2, x1]"
    using four_tokens by blast
  show ?thesis
    using assms(1)
    by (simp add: on_parsed_eq cs init_try_four init_package_def new_instance_def
        getattr_def andThen_def effective_prerelease_def str_cmp_eq_0)
qed

section \<open>The claims\<close>

subsection \<open>The sentinel\<close>

text \<open>
  Claim C8. The sentinel \<open>_inf\<close> is one object; its three-way comparison gives
  \<open>0\<close> (equal) against itself and \<open>1\<close> (greater) against every other value, both
  as the method \<open>_inf.__cmp__\<close> and through the builtin \<open>cmp\<close> with the sentinel
  as the left operand.
\<close>

theorem inf_cmp_sentinel:
  "inf_cmp (ValObj PyInf) = 0
   \<and> (\<forall>other. other \<noteq> ValObj PyInf \<longrightarrow> inf_cmp other = 1)
   \<and> py_cmp PyInf PyInf = 0
   \<and> (\<forall>w. w \<noteq> PyInf \<longrightarrow> py_cmp PyInf w = 1)"
  by (simp add: inf_cmp_def)

theorem inf_cmp_sentinel_witness:
  "ValObj (PyStr ''20-rc'') \<noteq> ValObj PyInf \<and> inf_cmp (ValObj (PyStr ''20-rc'')) = 1
   \<and> PyStr ''20-rc'' \<noteq> PyInf \<and> py_cmp PyInf (PyStr ''20-rc'') = 1
   \<and> inf_cmp (ValObj PyInf) = 0"
  using inf_cmp_sentinel by simp

subsection \<open>The constructor\<close>

text \<open>
  Claim C10. For every string with at least one dot the constructor stores the last
  dot-separated token in \<open>prerelease\<close> (and the token before it in \<open>micro\<close>), so
  \<open>prerelease\<close> is a string, never \<open>None\<close> and never unset, and the comparison uses
  that string: the branch that substitutes the sentinel is not taken.
  \<open>Version("0.2.4.20")\<close> has \<open>prerelease\<close> \<open>"20"\<close> and \<open>micro\<close> \<open>"4"\<close>.
\<close>

theorem dotted_prerelease_is_last_token:
  assumes "CHR ''.'' \<in> set s"
  shows "\<exists>v. Version_init s p = Inr v
           \<and> prerelease v = Some (PyStr (last (str_split CHR ''.'' s)))
           \<and> micro v = Some (PyStr (last (butlast (str_split CHR ''.'' s))))
           \<and> effective_prerelease v = Inr (PyStr (last (str_split CHR ''.'' s)))
           \<and> effective_prerelease v \<noteq> Inr PyInf"
  using assms
  by (simp add: Version_init_eq effective_prerelease_def getattr_def andThen_def
      init_try_prerelease init_try_micro str_split_not_Nil str_split_two)

theorem dotted_prerelease_is_last_token_witness:
  "CHR ''.'' \<in> set ''0.2.4.20''
   \<and> (\<exists>v. Version_init ''0.2.4.20'' None = Inr v
         \<and> prerelease v = Some (PyStr ''20'') \<and> micro v = Some (PyStr ''4'')
         \<and> effective_prerelease v = Inr (PyStr ''20''))"
proof -
  have dot: "CHR ''.'' \<in> set ''0.2.4.20''" by simp
  have sp: "str_split CHR ''.'' ''0.2.4.20'' = [''0'', ''2'', ''4'', ''20'']"
    by (simp add: str_split_def)
  show ?thesis
    using dotted_prerelease_is_last_token [OF dot, of None] by (auto simp: sp)
qed

text \<open>
  Claim C6, as stated: constructing a version never raises, and for \<open>"notaversion"\<close>
  the four fields are all empty or absent. The second half fails: the first pop always
  succeeds, so \<open>prerelease\<close> holds the whole string.
\<close>

theorem notaversion_prerelease_is_set:
  "Version_init ''notaversion'' None =
     Inr \<lparr>major = None, minor = None, micro = None,
          prerelease = Some (PyStr ''notaversion''), package = None\<rparr>
   \<and> Some (PyStr ''notaversion'') \<noteq> (None :: pyval option)
   \<and> Some (PyStr ''notaversion'') \<noteq> Some PyNone
   \<and> Some (PyStr ''notaversion'') \<noteq> Some (PyStr [])"
  by (simp add: Version_init_eq str_split_no_sep init_try_single new_instance_def
      init_package_def truthy_def)

text \<open>
  Claim C6, amended: for every string and every package argument the constructor
  returns (the \<open>IndexError\<close> of a pop is caught); for a string without a dot, such as
  \<open>"notaversion"\<close>, the attributes \<open>major\<close>, \<open>minor\<close> and \<open>micro\<close> are absent and
  \<open>prerelease\<close> is the whole input string.
\<close>

theorem Version_init_never_raises:
  "\<exists>v. Version_init s p = Inr v
      \<and> (CHR ''.'' \<notin> set s \<longrightarrow>
           major v = None \<and> minor v = None \<and> micro v = None
           \<and> prerelease v = Some (PyStr s))"
  by (simp add: Version_init_eq str_split_no_sep init_try_single new_instance_def)

theorem Version_init_never_raises_witness:
  "CHR ''.'' \<notin> set ''notaversion''
   \<and> (\<exists>v. Version_init ''notaversion'' None = Inr v
         \<and> major v = None \<and> minor v = None \<and> micro v = None
         \<and> prerelease v = Some (PyStr ''notaversion''))"
  using Version_init_never_raises [of "''notaversion''" None] by simp

subsection \<open>The six relations\<close>

text \<open>
  Claim C5. For two \<open>Version\<close> instances the six relations are the three-way
  comparison mapped: when \<open>__cmp__\<close> raises, each relation raises the same exception;
  when it returns \<open>c\<close>, \<open>==\<close> holds iff \<open>c\<close> is EQUAL, \<open>!=\<close> iff it is not EQUAL,
  \<open><\<close> iff LESS, \<open><=\<close> iff LESS or EQUAL, \<open>>\<close> iff GREATER, \<open>>=\<close> iff GREATER or
  EQUAL. So no two of them can disagree.
\<close>

theorem relations_agree_with_cmp:
  "(\<exists>e. Version_cmp a (VersionObj b) = Inl e
        \<and> Version_eq a (VersionObj b) = Inl e \<and> Version_ne a (VersionObj b) = Inl e
        \<and> Version_lt a (VersionObj b) = Inl e \<and> Version_le a (VersionObj b) = Inl e
        \<and> Version_gt a (VersionObj b) = Inl e \<and> Version_ge a (VersionObj b) = Inl e)
   \<or> (\<exists>c. Version_cmp a (VersionObj b) = Inr (CmpInt c)
        \<and> Version_eq a (VersionObj b) = Inr (RBool (three_way c = EQUAL))
        \<and> Version_ne a (VersionObj b) = Inr (RBool (three_way c \<noteq> EQUAL))
        \<and> Version_lt a (VersionObj b) = Inr (RBool (three_way c = LESS))
        \<and> Version_le a (VersionObj b) = Inr (RBool (three_way c = LESS \<or> three_way c = EQUAL))
        \<and> Version_gt a (VersionObj b) = Inr (RBool (three_way c = GREATER))
        \<and> Version_ge a (VersionObj b)
            = Inr (RBool (three_way c = GREATER \<or> three_way c = EQUAL)))"
proof (cases "Version_cmp a (VersionObj b)")
  case (Inl e)
  then show ?thesis
    by (simp add: Version_eq_def Version_ne_def Version_lt_def Version_le_def
        Version_gt_def Version_ge_def andThen_def)
next
  case (Inr r)
  have "r \<noteq> NotImplemented"
    using Inr by (auto simp: andThen_def split: sum.splits if_splits)
  then obtain c where "r = CmpInt c" by (cases r) auto
  with Inr show ?thesis
    by (auto simp: Version_eq_def Version_ne_def Version_lt_def Version_le_def
        Version_gt_def Version_ge_def andThen_def three_way_def)
qed

theorem relations_agree_with_cmp_witness:
  "Version_cmp
      \<lparr>major = Some (PyStr ''0''), minor = Some (PyStr ''2''), micro = Some (PyStr ''3''),
       prerelease = Some (PyStr ''25''), package = Some (PyStr ''tor'')\<rparr>
      (VersionObj
        \<lparr>major = Some (PyStr ''0''), minor = Some (PyStr ''2''), micro = Some (PyStr ''4''),
         prerelease = Some (PyStr ''5-alpha''), package = Some (PyStr ''tor'')\<rparr>)
     = Inr (CmpInt (- 1))
   \<and> Version_lt
      \<lparr>major = Some (PyStr ''0''), minor = Some (PyStr ''2''), micro = Some (PyStr ''3''),
       prerelease = Some (PyStr ''25''), package = Some (PyStr ''tor'')\<rparr>
      (VersionObj
        \<lparr>major = Some (PyStr ''0''), minor = Some (PyStr ''2''), micro = Some (PyStr ''4''),
         prerelease = Some (PyStr ''5-alpha''), package = Some (PyStr ''tor'')\<rparr>)
     = Inr (RBool True)
   \<and> Version_ge
      \<lparr>major = Some (PyStr ''0''), minor = Some (PyStr ''2''), micro = Some (PyStr ''3''),
       prerelease = Some (PyStr ''25''), package = Some (PyStr ''tor'')\<rparr>
      (VersionObj
        \<lparr>major = Some (PyStr ''0''), minor = Some (PyStr ''2''), micro = Some (PyStr ''4''),
         prerelease = Some (PyStr ''5-alpha''), package = Some (PyStr ''tor'')\<rparr>)
     = Inr (RBool False)"
proof -
  let ?a = "\<lparr>major = Some (PyStr ''0''), minor = Some (PyStr ''2''), micro = Some (PyStr ''3''),
       prerelease = Some (PyStr ''25''), package = Some (PyStr ''tor'')\<rparr>"
  let ?b = "\<lparr>major = Some (PyStr ''0''), minor = Some (PyStr ''2''), micro = Some (PyStr ''4''),
         prerelease = Some (PyStr ''5-alpha''), package = Some (PyStr ''tor'')\<rparr>"
  have c: "Version_cmp ?a (VersionObj ?b) = Inr (CmpInt (- 1))"
    by (simp add: getattr_def andThen_def effective_prerelease_def)
  show ?thesis
    using relations_agree_with_cmp [of ?a ?b]
    by (simp add: c three_way_def del: Version_cmp.simps)
qed

subsection \<open>The three-way comparison\<close>

text \<open>
  Claim C2, as stated: the first differing field of (major, minor, micro, effective
  prerelease) decides, compared numerically whenever both sides parse as integers, so
  that micro \<open>"10"\<close> is greater than micro \<open>"9"\<close>. The code compares the fields as
  strings: \<open>Version("0.2.10.1", "tor")\<close> compares less than
  \<open>Version("0.2.9.1", "tor")\<close>, where the rule of the claim gives greater.
\<close>

theorem micro_10_compares_less_than_9:
  "on_parsed Version_cmp ''0.2.10.1'' (Some ''tor'') ''0.2.9.1'' (Some ''tor'')
     = Inr (CmpInt (- 1))
   \<and> andThen (Version_init ''0.2.10.1'' (Some ''tor'')) (\<lambda>v. getattr micro ''micro'' v)
     = Inr (PyStr ''10'')
   \<and> andThen (Version_init ''0.2.9.1'' (Some ''tor'')) (\<lambda>v. getattr micro ''micro'' v)
     = Inr (PyStr ''9'')
   \<and> parses_as_int ''10'' \<and> parses_as_int ''9'' \<and> spec_field_cmp ''10'' ''9'' = 1"
  by code_simp

text \<open>
  Claim C2, amended: for two \<open>Version\<close> instances with the same package label whose
  fields are set, the three-way comparison returns, and its result is decided by the
  first differing field of (major, minor, micro, effective prerelease) in that order:
  it is \<open>0\<close> when the four fields agree, and otherwise the builtin comparison of the
  two values at the first position where they differ. Two strings are always compared
  lexically, by character code, also when both parse as integers.
\<close>

theorem cmp_decided_by_first_differing_field:
  assumes "package a = Some l" and "package b = Some l"
    and "major a = Some a1" and "minor a = Some a2" and "micro a = Some a3"
    and "effective_prerelease a = Inr a4"
    and "major b = Some b1" and "minor b = Some b2" and "micro b = Some b3"
    and "effective_prerelease b = Inr b4"
  shows "\<exists>c. Version_cmp a (VersionObj b) = Inr (CmpInt c)
           \<and> (([a1, a2, a3, a4] = [b1, b2, b3, b4] \<and> c = 0)
              \<or> (\<exists>i<4. take i [a1, a2, a3, a4] = take i [b1, b2, b3, b4]
                     \<and> [a1, a2, a3, a4] ! i \<noteq> [b1, b2, b3, b4] ! i
                     \<and> c = py_cmp ([a1, a2, a3, a4] ! i) ([b1, b2, b3, b4] ! i)))
           \<and> (\<forall>x y. py_cmp (PyStr x) (PyStr y)
                       = (if x < y then - 1 else if x = y then 0 else 1))"
proof -
  let ?xs = "[a1, a2, a3, a4]" and ?ys = "[b1, b2, b3, b4]"
  let ?i = "first_diff ?xs ?ys"
  have ret: "Version_cmp a (VersionObj b)
               = Inr (CmpInt (cmp4 (a1, a2, a3, a4) (b1, b2, b3, b4)))"
    using assms by (rule Version_cmp_returns)
  have dec: "(?xs = ?ys \<and> cmp4 (a1, a2, a3, a4) (b1, b2, b3, b4) = 0)
      \<or> (\<exists>i<4. take i ?xs = take i ?ys \<and> ?xs ! i \<noteq> ?ys ! i
             \<and> cmp4 (a1, a2, a3, a4) (b1, b2, b3, b4) = py_cmp (?xs ! i) (?ys ! i))"
  proof (cases "?xs = ?ys")
    case True
    then show ?thesis by (simp add: py_cmp_eq_0)
  next
    case False
    then have "?i < 4" and "take ?i ?xs = take ?i ?ys" and "?xs ! ?i \<noteq> ?ys ! ?i"
      by (auto simp: first_diff4)
    moreover have "cmp4 (a1, a2, a3, a4) (b1, b2, b3, b4) = py_cmp (?xs ! ?i) (?ys ! ?i)"
      using False by (simp only: cmp4_first_diff if_False)
    ultimately show ?thesis by blast
  qed
  show ?thesis
    using ret dec py_cmp_str by simp
qed

theorem cmp_decided_by_first_differing_field_witness:
  "\<exists>c. Version_cmp
          \<lparr>major = Some (PyStr ''0''), minor = Some (PyStr ''2''), micro = Some (PyStr ''10''),
           prerelease = Some (PyStr ''1''), package = Some (PyStr ''tor'')\<rparr>
          (VersionObj
            \<lparr>major = Some (PyStr ''0''), minor = Some (PyStr ''2''), micro = Some (PyStr ''9''),
             prerelease = Some (PyStr ''1''), package = Some (PyStr ''tor'')\<rparr>) = Inr (CmpInt c)
       \<and> c = py_cmp (PyStr ''10'') (PyStr ''9'') \<and> c = - 1"
proof -
  let ?a = "\<lparr>major = Some (PyStr ''0''), minor = Some (PyStr ''2''), micro = Some (PyStr ''10''),
           prerelease = Some (PyStr ''1''), package = Some (PyStr ''tor'')\<rparr>"
  let ?b = "\<lparr>major = Some (PyStr ''0''), minor = Some (PyStr ''2''), micro = Some (PyStr ''9''),
           prerelease = Some (PyStr ''1''), package = Some (PyStr ''tor'')\<rparr>"
  let ?xs = "[PyStr ''0'', PyStr ''2'', PyStr ''10'', PyStr ''1'']"
  let ?ys = "[PyStr ''0'', PyStr ''2'', PyStr ''9'', PyStr ''1'']"
  have ea: "effective_prerelease ?a = Inr (PyStr ''1'')"
    by (simp add: effective_prerelease_def getattr_def andThen_def)
  have eb: "effective_prerelease ?b = Inr (PyStr ''1'')"
    by (simp add: effective_prerelease_def getattr_def andThen_def)
  have "\<exists>c. Version_cmp ?a (VersionObj ?b) = Inr (CmpInt c)
           \<and> ((?xs = ?ys \<and> c = 0)
              \<or> (\<exists>i<4. take i ?xs = take i ?ys \<and> ?xs ! i \<noteq> ?ys ! i
                     \<and> c = py_cmp (?xs ! i) (?ys ! i)))
           \<and> (\<forall>x y. py_cmp (PyStr x) (PyStr y)
                       = (if x < y then - 1 else if x = y then 0 else 1))"
    by (rule cmp_decided_by_first_differing_field [where l = "PyStr ''tor''"])
      (simp_all add: ea eb)
  then show ?thesis
    by (simp add: getattr_def andThen_def effective_prerelease_def)
qed

text \<open>
  Claim C1. The claim: with the same package and the same major, minor and micro, the
  version without a prerelease suffix compares greater than the one with it, so
  \<open>Version("0.2.4.20", "tor") > Version("0.2.4.20-rc", "tor")\<close>. The code at that
  input: \<open>__cmp__\<close> returns \<open>-1\<close> and \<open>>\<close> returns \<open>False\<close>, because
  \<open>prerelease\<close> is \<open>"20"\<close> against \<open>"20-rc"\<close> and a prefix is the smaller string.
\<close>

theorem release_gt_rc_is_False:
  "on_parsed Version_gt ''0.2.4.20'' (Some ''tor'') ''0.2.4.20-rc'' (Some ''tor'')
     = Inr (RBool False)
   \<and> on_parsed Version_cmp ''0.2.4.20'' (Some ''tor'') ''0.2.4.20-rc'' (Some ''tor'')
     = Inr (CmpInt (- 1))"
  by code_simp

text \<open>
  Claim C3. The claim: each \<open><\<close> of the chain 0.2.3.25, 0.2.4.5-alpha, 0.2.4.20,
  0.2.5.1-alpha (package tor) returns true. The code: the first and the third do, the
  second returns \<open>False\<close>, since \<open>"5-alpha"\<close> is above \<open>"20"\<close> as a string.
\<close>

theorem server_versions_chain_middle_link:
  "on_parsed Version_lt ''0.2.3.25'' (Some ''tor'') ''0.2.4.5-alpha'' (Some ''tor'')
     = Inr (RBool True)
   \<and> on_parsed Version_lt ''0.2.4.5-alpha'' (Some ''tor'') ''0.2.4.20'' (Some ''tor'')
     = Inr (RBool False)
   \<and> on_parsed Version_cmp ''0.2.4.5-alpha'' (Some ''tor'') ''0.2.4.20'' (Some ''tor'')
     = Inr (CmpInt 1)
   \<and> on_parsed Version_lt ''0.2.4.20'' (Some ''tor'') ''0.2.5.1-alpha'' (Some ''tor'')
     = Inr (RBool True)"
  by code_simp

text \<open>
  Claim C4. The claim: a comparison raises \<open>IncomparableVersions\<close> exactly when the
  labels differ and are both non-empty, and never raises when the labels are equal.
  The code raises \<open>IncomparableVersions\<close> exactly then (lemma
  \<open>on_parsed_incomparable_iff\<close>), but with equal labels it can still raise
  \<open>AttributeError\<close>: for the label \<open>"tor"\<close> on both sides and a string with fewer
  than three dots, and for two versions constructed without a package.
\<close>

theorem comparison_with_equal_labels_raises:
  "on_parsed Version_eq ''1.2'' (Some ''tor'') ''1.2'' (Some ''tor'')
     = Inl (AttributeError ''major'')
   \<and> on_parsed Version_lt ''0.2.4.20'' None ''0.2.4.20'' None
     = Inl (AttributeError ''package'')"
  by code_simp

text \<open>
  Claim C9. The claim: two versions constructed from the same string and the same
  optional package compare equal. The code: without a package argument the
  attribute \<open>package\<close> is never assigned and \<open>__cmp__\<close> raises \<open>AttributeError\<close>;
  with fewer than three dots in the string it raises for the attribute \<open>major\<close>.
  (With a non-empty package and three dots the result is \<open>0\<close>, lemma
  \<open>same_string_compares_equal\<close>.)
\<close>

theorem same_string_twice_raises:
  "on_parsed Version_cmp ''0.2.4.20'' None ''0.2.4.20'' None
     = Inl (AttributeError ''package'')
   \<and> on_parsed Version_eq ''0.2.4.20'' None ''0.2.4.20'' None
     = Inl (AttributeError ''package'')
   \<and> on_parsed Version_cmp ''0.2.4'' (Some ''tor'') ''0.2.4'' (Some ''tor'')
     = Inl (AttributeError ''major'')"
  by code_simp

subsection \<open>Rendering\<close>

text \<open>
  Claim C7. The claim: \<open>base()\<close> of a version constructed from a four-field string
  returns that string. The code: \<open>base()\<close> raises \<open>NameError\<close> on its first line,
  for every version; the method it means to call raises \<open>NameError\<close> as well.
\<close>

theorem base_raises_NameError:
  "base_parsed ''0.2.4.20'' None = Inl (NameError ''getPrefixedPrerelease'')
   \<and> andThen (Version_init ''0.2.4.20'' None) (\<lambda>v. getPrefixedPrerelease v ''.'')
     = Inl (NameError ''prefix'')"
  by code_simp

end
